theory Spec2Isabelle
  imports Complex_Main "HOL-Library.AList" "HOL-Library.Word"
begin

section \<open>The page behaviour script (script.js) as state transformers\<close>

text \<open>
  The script is a set of event handlers over the browser's document. The document is
  modelled by the part of it the script reads and writes: for every selector the script
  queries, the state holds what the query returns (\<open>None\<close> for \<open>null\<close>), and an
  element is its class list, its attributes and its listeners. Elements held in
  different components of the state are different DOM elements. The classes the script
  adds and removes occur in none of the selectors it queries, so a query's result is not
  changed by them. Scroll offsets and positions are real numbers. A function whose
  \<open>try\<close> block can raise is given by the body of the block, which returns either the
  exception with the state reached or the final state, and by the function around it.
\<close>

subsection \<open>Configuration\<close>

definition SCROLL_OFFSET :: real where
  "SCROLL_OFFSET = 80"

definition SCROLL_TO_TOP_THRESHOLD :: real where
  "SCROLL_TO_TOP_THRESHOLD = 300"

definition MOBILE_BREAKPOINT :: int where
  "MOBILE_BREAKPOINT = 768"

definition DEBOUNCE_DELAY :: nat where
  "DEBOUNCE_DELAY = 150"

definition MOBILE_MENU_OPEN :: string where
  "MOBILE_MENU_OPEN = ''mobile-menu-open''"

definition SCROLL_TO_TOP_VISIBLE :: string where
  "SCROLL_TO_TOP_VISIBLE = ''visible''"

definition LAZY_LOADED :: string where
  "LAZY_LOADED = ''lazy-loaded''"

definition FORM_ERROR :: string where
  "FORM_ERROR = ''error''"

definition FORM_SUCCESS :: string where
  "FORM_SUCCESS = ''success''"

subsection \<open>Elements: class list, attributes, listeners\<close>

text \<open>
  \<open>classList\<close> is the DOM's ordered token set: \<open>add\<close> appends a token that is absent,
  \<open>remove\<close> deletes it. The attributes other than \<open>class\<close> are an association list in the
  order of the element's attribute map: \<open>setAttribute\<close> overwrites an existing attribute
  in place and appends a new one. A listener is the event type and the function
  registered for it.
\<close>

datatype handler =
    HandleSmoothScroll | ToggleMobileMenu | HandleOutsideClick | HandleEscapeKey
  | HandleResize | HandleScroll | ScrollToTop | HandleFormSubmit | ValidateField
  | ClearFieldError | HandleSkipLink | InitializeFeatures
  | Debounced handler nat
  | MarkLazyLoaded
  | LogImageError string

text \<open>\<open>debounce(f, wait)\<close> and an arrow function evaluate to a new function object at
  every evaluation; the named functions of the script are one object each.\<close>

fun fresh_closure :: "handler \<Rightarrow> bool" where
  "fresh_closure (Debounced h w) = True"
| "fresh_closure MarkLazyLoaded = True"
| "fresh_closure (LogImageError src) = True"
| "fresh_closure h = False"

record element =
  classList :: "string list"
  attributes :: "(string \<times> string) list"
  listeners :: "(string \<times> handler) list"

definition classList_contains :: "string \<Rightarrow> 'a element_scheme \<Rightarrow> bool" where
  "classList_contains c e = (c \<in> set (classList e))"

definition classList_add :: "string \<Rightarrow> 'a element_scheme \<Rightarrow> 'a element_scheme" where
  "classList_add c e = (if c \<in> set (classList e) then e else e\<lparr>classList := classList e @ [c]\<rparr>)"

definition classList_remove :: "string \<Rightarrow> 'a element_scheme \<Rightarrow> 'a element_scheme" where
  "classList_remove c e = e\<lparr>classList := removeAll c (classList e)\<rparr>"

definition getAttribute :: "string \<Rightarrow> 'a element_scheme \<Rightarrow> string option" where
  "getAttribute k e = map_of (attributes e) k"

definition hasAttribute :: "string \<Rightarrow> 'a element_scheme \<Rightarrow> bool" where
  "hasAttribute k e = (map_of (attributes e) k \<noteq> None)"

definition setAttribute :: "string \<Rightarrow> string \<Rightarrow> 'a element_scheme \<Rightarrow> 'a element_scheme" where
  "setAttribute k v e = e\<lparr>attributes := AList.update k v (attributes e)\<rparr>"

definition removeAttribute :: "string \<Rightarrow> 'a element_scheme \<Rightarrow> 'a element_scheme" where
  "removeAttribute k e = e\<lparr>attributes := AList.delete k (attributes e)\<rparr>"

text \<open>\<open>addEventListener\<close> ignores a registration whose type and callback are already in
  the target's list.\<close>

definition add_listener :: "string \<Rightarrow> handler \<Rightarrow> (string \<times> handler) list \<Rightarrow> (string \<times> handler) list" where
  "add_listener ty h ls = (if \<not> fresh_closure h \<and> (ty, h) \<in> set ls then ls else ls @ [(ty, h)])"

definition addEventListener :: "string \<Rightarrow> handler \<Rightarrow> 'a element_scheme \<Rightarrow> 'a element_scheme" where
  "addEventListener ty h e = e\<lparr>listeners := add_listener ty h (listeners e)\<rparr>"

subsection \<open>Strings of field values\<close>

text \<open>
  A field's value is a JavaScript string, a sequence of 16-bit code units. \<open>trim\<close> and the
  class \<open>\s\<close> of a regular expression use the same set: the language's white space and
  line terminators. \<open>\d\<close> is the ASCII digits.
\<close>

type_synonym jschar = "16 word"
type_synonym jsstring = "jschar list"

definition js :: "string \<Rightarrow> jsstring" where
  "js s = map of_char s"

definition isWhiteSpace :: "jschar \<Rightarrow> bool" where
  "isWhiteSpace c =
     (c \<in> {0x09, 0x0A, 0x0B, 0x0C, 0x0D, 0x20, 0xA0, 0x1680, 0x2028, 0x2029,
            0x202F, 0x205F, 0x3000, 0xFEFF}
      \<or> (0x2000 \<le> c \<and> c \<le> 0x200A))"

definition isDigit :: "jschar \<Rightarrow> bool" where
  "isDigit c = (0x30 \<le> c \<and> c \<le> 0x39)"

definition trim :: "jsstring \<Rightarrow> jsstring" where
  "trim s = rev (dropWhile isWhiteSpace (rev (dropWhile isWhiteSpace s)))"

subsection \<open>The two regular expressions\<close>

text \<open>
  Both patterns are anchored at both ends and are a sequence of items, each a single
  character of a class or one or more characters of a class. \<open>rests i s\<close> lists what can
  remain of \<open>s\<close> after item \<open>i\<close> has matched a prefix of it; \<open>regex_test\<close> is \<open>RegExp.test\<close>
  for such a pattern: some way of matching the items in turn consumes the whole string.
\<close>

datatype item = One "jschar \<Rightarrow> bool" | OneOrMore "jschar \<Rightarrow> bool"

fun rests :: "item \<Rightarrow> jsstring \<Rightarrow> jsstring list" where
  "rests (One p) [] = []"
| "rests (One p) (c # cs) = (if p c then [cs] else [])"
| "rests (OneOrMore p) [] = []"
| "rests (OneOrMore p) (c # cs) = (if p c then cs # rests (OneOrMore p) cs else [])"

fun regex_test :: "item list \<Rightarrow> jsstring \<Rightarrow> bool" where
  "regex_test [] s = (s = [])"
| "regex_test (i # is) s = list_ex (regex_test is) (rests i s)"

text \<open>\<open>[^\s@]\<close>\<close>

definition notSpaceOrAt :: "jschar \<Rightarrow> bool" where
  "notSpaceOrAt c = (\<not> isWhiteSpace c \<and> c \<noteq> of_char CHR ''@'')"

text \<open>\<open>/^[^\s@]+@[^\s@]+\.[^\s@]+$/\<close>\<close>

definition emailRegex :: "item list" where
  "emailRegex =
     [OneOrMore notSpaceOrAt, One (\<lambda>c. c = of_char CHR ''@''), OneOrMore notSpaceOrAt,
      One (\<lambda>c. c = of_char CHR ''.''), OneOrMore notSpaceOrAt]"

text \<open>\<open>[\d\s\-\+\(\)]\<close>\<close>

definition phoneChar :: "jschar \<Rightarrow> bool" where
  "phoneChar c =
     (isDigit c \<or> isWhiteSpace c \<or> c = of_char CHR ''-'' \<or> c = of_char CHR ''+''
      \<or> c = of_char CHR ''('' \<or> c = of_char CHR '')'')"

text \<open>\<open>/^[\d\s\-\+\(\)]+$/\<close>\<close>

definition phoneRegex :: "item list" where
  "phoneRegex = [OneOrMore phoneChar]"

subsection \<open>Exceptions and the console\<close>

datatype exn = TypeError | SyntaxError | NotFoundError | SecurityError | Error string

datatype console_entry = ConsoleError string exn | ConsoleLog string

subsection \<open>Form fields\<close>

text \<open>
  A field is an \<open>input\<close> or \<open>textarea\<close>. \<open>parentElement\<close> is \<open>None\<close> when the field has no
  parent element; otherwise it holds the elements under the parent, other than the
  field itself, that match \<open>.field-error\<close>, in document order, which is all the script
  reads of the parent. None of them is a field, and no two fields share a parent.
  \<open>defaultValue\<close> is the value the form's \<open>reset()\<close> gives the field.
\<close>

record text_element = element +
  textContent :: string

record field = element +
  field_value :: jsstring
  defaultValue :: jsstring
  field_type :: string
  parentElement :: "text_element list option"

text \<open>A success banner carries an identity: the timeout callback of \<open>showFormSuccess\<close>
  keeps a reference to the element it displayed.\<close>

record banner = text_element +
  node_id :: nat

text \<open>The form: its fields (\<open>querySelectorAll('input, textarea')\<close>) and the elements
  under it that match \<open>.form-success\<close>, both in document order.\<close>

record form = element +
  inputs :: "field list"
  successElements :: "banner list"

subsection \<open>Other elements\<close>

record image = element +
  complete :: bool

text \<open>An element a fragment link can resolve to, with the top of its bounding rectangle.\<close>

record target_element = element +
  rectTop :: real

text \<open>The first \<open>header\<close> element: its height, whether it has a \<open>.header-container\<close>
  descendant, and whether the navigation is a child of that container.\<close>

record header_element =
  offsetHeight :: int
  hasContainer :: bool
  containerHoldsNav :: bool

datatype timeout_callback = FormSuccessTimeout nat

record dom_event =
  defaultPrevented :: bool

definition preventDefault :: "dom_event \<Rightarrow> dom_event" where
  "preventDefault e = e\<lparr>defaultPrevented := True\<rparr>"

subsection \<open>The page\<close>

text \<open>
  \<open>querySelector\<close> is \<open>document.querySelector\<close> on the selector of a link's \<open>href\<close>: it
  raises on a string that is not a selector, and otherwise gives the matching element,
  as its key in \<open>elements\<close>, or nothing. \<open>scrollToCalls\<close>, \<open>pushStateCalls\<close> and
  \<open>focusCalls\<close> record the calls of \<open>window.scrollTo\<close>, \<open>history.pushState\<close> and
  \<open>focus()\<close>; \<open>pushStateRaises\<close> is what \<open>history.pushState\<close> raises in this browser, if
  anything. \<open>timers\<close> are the pending \<open>setTimeout\<close> calls with their delay in
  milliseconds. \<open>nextId\<close> is the identity of the next element \<open>createElement\<close> makes.
  \<open>observers\<close> lists, for each intersection observer, the images it observes.
\<close>

record page =
  console :: "console_entry list"
  readyState :: string
  documentListeners :: "(string \<times> handler) list"
  windowListeners :: "(string \<times> handler) list"
  styleIds :: "string list"
  header :: "header_element option"
  nav :: "element option"
  menuToggle :: "element option"
  navLinks :: "element list"
  scrollButton :: "element option"
  pageYOffset :: real
  scrollTop :: real
  innerWidth :: int
  querySelector :: "string \<Rightarrow> exn + nat option"
  elements :: "nat \<Rightarrow> target_element"
  mainElement :: "nat option"
  scrollToCalls :: "real list"
  hasPushState :: bool
  pushStateRaises :: "exn option"
  pushStateCalls :: "string list"
  focusCalls :: "nat list"
  lazyImages :: "image list"
  hasIntersectionObserver :: bool
  observers :: "nat list list"
  contactForm :: "form option"
  timers :: "(nat \<times> timeout_callback) list"
  nextId :: nat
  skipLink :: "element option"
  cards :: "element list"

definition logError :: "string \<Rightarrow> exn \<Rightarrow> page \<Rightarrow> page" where
  "logError ctx err s = s\<lparr>console := console s @ [ConsoleError ctx err]\<rparr>"

definition console_log :: "string \<Rightarrow> page \<Rightarrow> page" where
  "console_log msg s = s\<lparr>console := console s @ [ConsoleLog msg]\<rparr>"

text \<open>\<open>try { ... } catch (error) { logError(ctx, error) }\<close>: the block either completes
  or raises, in a state that keeps what it had done before raising.\<close>

definition try_catch :: "string \<Rightarrow> (exn \<times> page) + page \<Rightarrow> page" where
  "try_catch ctx r = (case r of Inr s \<Rightarrow> s | Inl (err, s) \<Rightarrow> logError ctx err s)"

definition getScrollOffset :: "page \<Rightarrow> real" where
  "getScrollOffset s = (case header s of Some h \<Rightarrow> real_of_int (offsetHeight h) | None \<Rightarrow> SCROLL_OFFSET)"

subsection \<open>Mobile hamburger menu\<close>

definition openMobileMenu :: "page \<Rightarrow> page" where
  "openMobileMenu s =
     (case nav s of None \<Rightarrow> s
      | Some n \<Rightarrow>
        (case menuToggle s of None \<Rightarrow> s
         | Some t \<Rightarrow>
           s\<lparr>nav := Some (classList_add MOBILE_MENU_OPEN n),
             menuToggle := Some (setAttribute ''aria-expanded'' ''true''
                                  (classList_add MOBILE_MENU_OPEN t))\<rparr>))"

definition closeMobileMenu :: "page \<Rightarrow> page" where
  "closeMobileMenu s =
     (case nav s of None \<Rightarrow> s
      | Some n \<Rightarrow>
        (case menuToggle s of None \<Rightarrow> s
         | Some t \<Rightarrow>
           s\<lparr>nav := Some (classList_remove MOBILE_MENU_OPEN n),
             menuToggle := Some (setAttribute ''aria-expanded'' ''false''
                                  (classList_remove MOBILE_MENU_OPEN t))\<rparr>))"

text \<open>
  \<open>toggleMobileMenu\<close> runs in a \<open>try\<close> block; nothing in the block raises, so the
  \<open>catch\<close> is never entered.
\<close>

definition toggleMobileMenu :: "page \<Rightarrow> page" where
  "toggleMobileMenu s =
     (case nav s of None \<Rightarrow> s
      | Some n \<Rightarrow>
        (case menuToggle s of None \<Rightarrow> s
         | Some t \<Rightarrow>
           (let isOpen = classList_contains MOBILE_MENU_OPEN n
            in if isOpen then closeMobileMenu s else openMobileMenu s)))"

text \<open>
  A click event, as far as \<open>handleOutsideClick\<close> looks at it: whether the navigation and
  the toggle button contain the event's target.
\<close>

record click_event =
  targetInNav :: bool
  targetInToggle :: bool

definition handleOutsideClick :: "click_event \<Rightarrow> page \<Rightarrow> page" where
  "handleOutsideClick event s =
     (case nav s of None \<Rightarrow> s
      | Some n \<Rightarrow>
        (case menuToggle s of None \<Rightarrow> s
         | Some t \<Rightarrow>
           if \<not> classList_contains MOBILE_MENU_OPEN n then s
           else if \<not> targetInNav event \<and> \<not> targetInToggle event then closeMobileMenu s
           else s))"

record key_event =
  key :: string
  keyCode :: nat

definition handleEscapeKey :: "key_event \<Rightarrow> page \<Rightarrow> page" where
  "handleEscapeKey event s =
     (if key event = ''Escape'' \<or> keyCode event = 27 then closeMobileMenu s else s)"

text \<open>\<open>handleResize\<close> and \<open>handleScroll\<close> are registered through \<open>debounce\<close>, which calls
  them after a quiet period; the delay itself is not part of the model.\<close>

definition handleResize :: "page \<Rightarrow> page" where
  "handleResize s = (if innerWidth s \<ge> MOBILE_BREAKPOINT then closeMobileMenu s else s)"

definition addMobileMenuStyles :: "page \<Rightarrow> page" where
  "addMobileMenuStyles s =
     (if ''mobile-menu-styles'' \<in> set (styleIds s) then s
      else s\<lparr>styleIds := styleIds s @ [''mobile-menu-styles'']\<rparr>)"

text \<open>The new button and the page after the style block has been added. The three
  \<open>span\<close> children of the button are not part of the model.\<close>

definition createMobileMenuToggle :: "page \<Rightarrow> element \<times> page" where
  "createMobileMenuToggle s =
     (let button = \<lparr>classList = [''mobile-menu-toggle''], attributes = [], listeners = []\<rparr>;
          button = setAttribute ''aria-label'' ''Toggle navigation menu'' button;
          button = setAttribute ''aria-expanded'' ''false'' button
      in (button, addMobileMenuStyles s))"

text \<open>
  The body of \<open>initMobileMenu\<close>'s \<open>try\<close> block.
  \<open>header.querySelector('.header-container').insertBefore(menuToggle, nav)\<close> raises a
  \<open>TypeError\<close> when the header has no such descendant, and \<open>insertBefore\<close> raises a
  \<open>NotFoundError\<close> when the navigation is not a child of it. Once inserted, the new button
  is what \<open>.mobile-menu-toggle\<close> selects.
\<close>

definition initMobileMenu_listeners :: "element \<Rightarrow> page \<Rightarrow> page" where
  "initMobileMenu_listeners t s =
     s\<lparr>menuToggle := Some (addEventListener ''click'' ToggleMobileMenu t),
       documentListeners :=
         add_listener ''keydown'' HandleEscapeKey
           (add_listener ''click'' HandleOutsideClick (documentListeners s)),
       windowListeners :=
         add_listener ''resize'' (Debounced HandleResize DEBOUNCE_DELAY) (windowListeners s)\<rparr>"

definition initMobileMenu_body :: "page \<Rightarrow> (exn \<times> page) + page" where
  "initMobileMenu_body s =
     (case header s of None \<Rightarrow> Inr s
      | Some h \<Rightarrow>
        (case nav s of None \<Rightarrow> Inr s
         | Some n \<Rightarrow>
           (case menuToggle s of
              Some t \<Rightarrow> Inr (initMobileMenu_listeners t s)
            | None \<Rightarrow>
              (let (button, s1) = createMobileMenuToggle s
               in if \<not> hasContainer h then Inl (TypeError, s1)
                  else if \<not> containerHoldsNav h then Inl (NotFoundError, s1)
                  else Inr (initMobileMenu_listeners button s1)))))"

definition initMobileMenu :: "page \<Rightarrow> page" where
  "initMobileMenu s = try_catch ''Mobile menu initialization'' (initMobileMenu_body s)"

subsection \<open>Smooth scrolling navigation\<close>

text \<open>Nothing in the \<open>try\<close> block of \<open>initSmoothScrolling\<close> raises.\<close>

definition initSmoothScrolling :: "page \<Rightarrow> page" where
  "initSmoothScrolling s =
     s\<lparr>navLinks := map (addEventListener ''click'' HandleSmoothScroll) (navLinks s)\<rparr>"

text \<open>Focus is moved to an element by giving it a \<open>tabindex\<close>, calling \<open>focus()\<close> and
  removing the \<open>tabindex\<close> again.\<close>

definition focus_transiently :: "nat \<Rightarrow> page \<Rightarrow> page" where
  "focus_transiently i s =
     (let s1 = s\<lparr>elements := (elements s)(i := setAttribute ''tabindex'' ''-1'' (elements s i))\<rparr>;
          s2 = s1\<lparr>focusCalls := focusCalls s1 @ [i]\<rparr>
      in s2\<lparr>elements := (elements s2)(i := removeAttribute ''tabindex'' (elements s2 i))\<rparr>)"

text \<open>
  The body of \<open>handleSmoothScroll\<close>'s \<open>try\<close> block; \<open>link\<close> is \<open>this\<close>, the link clicked.
  The target position is computed in real numbers.
\<close>

definition handleSmoothScroll_body ::
  "element \<Rightarrow> dom_event \<Rightarrow> page \<Rightarrow> (exn \<times> dom_event \<times> page) + (dom_event \<times> page)" where
  "handleSmoothScroll_body link event s =
     (case getAttribute ''href'' link of None \<Rightarrow> Inr (event, s)
      | Some targetId \<Rightarrow>
        (case targetId of [] \<Rightarrow> Inr (event, s)
         | c # cs \<Rightarrow>
           if c \<noteq> CHR ''#'' then Inr (event, s)
           else
             (case querySelector s targetId of
                Inl err \<Rightarrow> Inl (err, event, s)
              | Inr None \<Rightarrow> Inr (event, s)
              | Inr (Some i) \<Rightarrow>
                (let event1 = preventDefault event;
                     offset = getScrollOffset s;
                     targetPosition = rectTop (elements s i) + pageYOffset s - offset;
                     s1 = s\<lparr>scrollToCalls := scrollToCalls s @ [targetPosition]\<rparr>
                 in case (if hasPushState s1 then pushStateRaises s1 else None) of
                      Some err \<Rightarrow> Inl (err, event1, s1)
                    | None \<Rightarrow>
                      (let s2 = (if hasPushState s1
                                 then s1\<lparr>pushStateCalls := pushStateCalls s1 @ [targetId]\<rparr>
                                 else s1);
                           s3 = closeMobileMenu s2
                       in Inr (event1, focus_transiently i s3))))))"

definition handleSmoothScroll :: "element \<Rightarrow> dom_event \<Rightarrow> page \<Rightarrow> dom_event \<times> page" where
  "handleSmoothScroll link event s =
     (case handleSmoothScroll_body link event s of
        Inr r \<Rightarrow> r
      | Inl (err, event1, s1) \<Rightarrow> (event1, logError ''Smooth scroll handler'' err s1))"

subsection \<open>Lazy loading images\<close>

text \<open>\<open>loadImage\<close> runs in a \<open>try\<close> block in which nothing raises.\<close>

definition loadImage :: "image \<Rightarrow> image" where
  "loadImage img =
     (if classList_contains LAZY_LOADED img then img
      else
        (case getAttribute ''src'' img of None \<Rightarrow> img
         | Some src \<Rightarrow>
           if src = [] then img
           else
             (let img1 = addEventListener ''load'' MarkLazyLoaded img;
                  img2 = addEventListener ''error'' (LogImageError src) img1
              in if complete img2 then classList_add LAZY_LOADED img2 else img2)))"

text \<open>The two listeners \<open>loadImage\<close> registers, run on the image's \<open>load\<close> and \<open>error\<close>.\<close>

definition image_load_listener :: "image \<Rightarrow> image" where
  "image_load_listener img = classList_add LAZY_LOADED img"

definition image_error_listener :: "string \<Rightarrow> page \<Rightarrow> page" where
  "image_error_listener src s = logError ''Image loading'' (Error (''Failed to load image: '' @ src)) s"

text \<open>An intersection entry: whether it intersects, and its target as a position in
  \<open>lazyImages\<close>. \<open>k\<close> is the observer that reports, as a position in \<open>observers\<close>.\<close>

record intersection_entry =
  isIntersecting :: bool
  entry_target :: nat

fun handleImageIntersection :: "intersection_entry list \<Rightarrow> nat \<Rightarrow> page \<Rightarrow> page" where
  "handleImageIntersection [] k s = s"
| "handleImageIntersection (entry # entries) k s =
     handleImageIntersection entries k
       (if isIntersecting entry
        then s\<lparr>lazyImages := (lazyImages s)[entry_target entry := loadImage (lazyImages s ! entry_target entry)],
               observers := (observers s)[k := removeAll (entry_target entry) (observers s ! k)]\<rparr>
        else s)"

text \<open>\<open>initLazyLoading\<close>: with an intersection observer the images are observed by a
  new observer, without one they are loaded at once. Nothing in the \<open>try\<close> block raises.\<close>

definition initLazyLoading :: "page \<Rightarrow> page" where
  "initLazyLoading s =
     (let images = lazyImages s
      in if length images = 0 then s
         else if hasIntersectionObserver s
         then s\<lparr>observers := observers s @ [[0 ..< length images]]\<rparr>
         else s\<lparr>lazyImages := map loadImage images\<rparr>)"

subsection \<open>Scroll-to-top button\<close>

text \<open>\<open>window.pageYOffset || document.documentElement.scrollTop\<close>: the first operand
  unless it is zero.\<close>

definition scrollPosition :: "page \<Rightarrow> real" where
  "scrollPosition s = (if pageYOffset s \<noteq> 0 then pageYOffset s else scrollTop s)"

definition handleScroll :: "page \<Rightarrow> page" where
  "handleScroll s =
     (case scrollButton s of None \<Rightarrow> s
      | Some b \<Rightarrow>
        if scrollPosition s > SCROLL_TO_TOP_THRESHOLD
        then s\<lparr>scrollButton := Some (classList_add SCROLL_TO_TOP_VISIBLE b)\<rparr>
        else s\<lparr>scrollButton := Some (classList_remove SCROLL_TO_TOP_VISIBLE b)\<rparr>)"

definition scrollToTop :: "page \<Rightarrow> page" where
  "scrollToTop s = s\<lparr>scrollToCalls := scrollToCalls s @ [0]\<rparr>"

definition addScrollToTopStyles :: "page \<Rightarrow> page" where
  "addScrollToTopStyles s =
     (if ''scroll-to-top-styles'' \<in> set (styleIds s) then s
      else s\<lparr>styleIds := styleIds s @ [''scroll-to-top-styles'']\<rparr>)"

definition createScrollToTopButton :: "page \<Rightarrow> element \<times> page" where
  "createScrollToTopButton s =
     (let button = \<lparr>classList = [''scroll-to-top''], attributes = [], listeners = []\<rparr>;
          button = setAttribute ''aria-label'' ''Scroll to top'' button
      in (button, addScrollToTopStyles s))"

text \<open>\<open>initScrollToTop\<close>: a button appended to the body is what \<open>.scroll-to-top\<close> selects
  from then on. Nothing in the \<open>try\<close> block raises.\<close>

definition initScrollToTop :: "page \<Rightarrow> page" where
  "initScrollToTop s =
     (let (button, s1) = (case scrollButton s of
                            None \<Rightarrow> createScrollToTopButton s
                          | Some b \<Rightarrow> (b, s));
          s2 = s1\<lparr>scrollButton := Some (addEventListener ''click'' ScrollToTop button)\<rparr>;
          s3 = s2\<lparr>windowListeners :=
                    add_listener ''scroll'' (Debounced HandleScroll DEBOUNCE_DELAY) (windowListeners s2)\<rparr>
      in handleScroll s3)"

subsection \<open>Contact form validation\<close>

text \<open>
  \<open>clearFieldError\<close> and \<open>showFieldError\<close> read \<open>field.parentElement.querySelector\<close> without
  a check: on a field with no parent element they raise a \<open>TypeError\<close>, after the changes
  they made to the field itself.
\<close>

definition clearFieldError :: "field \<Rightarrow> field \<times> (exn + unit)" where
  "clearFieldError f =
     (let f1 = classList_remove FORM_ERROR f;
          f2 = removeAttribute ''aria-invalid'' f1
      in case parentElement f2 of
           None \<Rightarrow> (f2, Inl TypeError)
         | Some [] \<Rightarrow> (f2, Inr ())
         | Some (errorElement # others) \<Rightarrow> (f2\<lparr>parentElement := Some others\<rparr>, Inr ()))"

definition showFieldError :: "string \<Rightarrow> field \<Rightarrow> field \<times> (exn + unit)" where
  "showFieldError message f =
     (let f1 = classList_add FORM_ERROR f;
          f2 = setAttribute ''aria-invalid'' ''true'' f1
      in case parentElement f2 of
           None \<Rightarrow> (f2, Inl TypeError)
         | Some [] \<Rightarrow>
             (let errorElement = \<lparr>classList = [''field-error''], attributes = [], listeners = [],
                                  textContent = []\<rparr>;
                  errorElement = setAttribute ''role'' ''alert'' errorElement
              in (f2\<lparr>parentElement := Some [errorElement\<lparr>textContent := message\<rparr>]\<rparr>, Inr ()))
         | Some (errorElement # others) \<Rightarrow>
             (f2\<lparr>parentElement := Some (errorElement\<lparr>textContent := message\<rparr> # others)\<rparr>, Inr ()))"

text \<open>\<open>showFieldError(field, message); return false\<close>\<close>

definition fail_with :: "string \<Rightarrow> field \<Rightarrow> field \<times> (exn + bool)" where
  "fail_with message f =
     (case showFieldError message f of
        (f', Inl err) \<Rightarrow> (f', Inl err)
      | (f', Inr u) \<Rightarrow> (f', Inr False))"

definition validateField :: "field \<Rightarrow> field \<times> (exn + bool)" where
  "validateField f =
     (let val = trim (field_value f);
          type = field_type f;
          required = hasAttribute ''required'' f
      in case clearFieldError f of
           (f1, Inl err) \<Rightarrow> (f1, Inl err)
         | (f1, Inr u) \<Rightarrow>
             if required \<and> val = [] then fail_with ''This field is required'' f1
             else if type = ''email'' \<and> val \<noteq> [] \<and> \<not> regex_test emailRegex val
             then fail_with ''Please enter a valid email address'' f1
             else if type = ''tel'' \<and> val \<noteq> [] \<and> \<not> regex_test phoneRegex val
             then fail_with ''Please enter a valid phone number'' f1
             else (f1, Inr True))"

text \<open>The loop of \<open>validateForm\<close> over the fields, with \<open>isValid\<close> so far; an exception
  leaves the loop.\<close>

fun validateForm_loop :: "field list \<Rightarrow> bool \<Rightarrow> field list \<times> (exn + bool)" where
  "validateForm_loop [] isValid = ([], Inr isValid)"
| "validateForm_loop (input # rest) isValid =
     (case validateField input of
        (input', Inl err) \<Rightarrow> (input' # rest, Inl err)
      | (input', Inr ok) \<Rightarrow>
          (case validateForm_loop rest (if \<not> ok then False else isValid) of
             (rest', r) \<Rightarrow> (input' # rest', r)))"

definition validateForm :: "form \<Rightarrow> form \<times> (exn + bool)" where
  "validateForm frm =
     (case validateForm_loop (inputs frm) True of
        (inputs', r) \<Rightarrow> (frm\<lparr>inputs := inputs'\<rparr>, r))"

definition form_reset :: "form \<Rightarrow> form" where
  "form_reset frm = frm\<lparr>inputs := map (\<lambda>f. f\<lparr>field_value := defaultValue f\<rparr>) (inputs frm)\<rparr>"

text \<open>\<open>showFormSuccess\<close>; the form is the page's contact form.\<close>

definition showFormSuccess :: "form \<Rightarrow> page \<Rightarrow> page" where
  "showFormSuccess frm s =
     (let frm1 = classList_add FORM_SUCCESS frm
      in case successElements frm1 of
           [] \<Rightarrow>
             (let successElement =
                    \<lparr>classList = [''form-success''], attributes = [], listeners = [],
                     textContent = [], node_id = nextId s\<rparr>;
                  successElement = setAttribute ''role'' ''status'' successElement;
                  successElement = successElement
                    \<lparr>textContent := ''Thank you! Your message has been sent successfully.''\<rparr>
              in s\<lparr>contactForm := Some (frm1\<lparr>successElements := [successElement]\<rparr>),
                   nextId := Suc (nextId s),
                   timers := timers s @ [(5000, FormSuccessTimeout (node_id successElement))]\<rparr>)
         | successElement # others \<Rightarrow>
             s\<lparr>contactForm := Some frm1,
               timers := timers s @ [(5000, FormSuccessTimeout (node_id successElement))]\<rparr>)"

text \<open>The callback of the timeout: \<open>i\<close> is the banner it holds.\<close>

fun run_timeout :: "timeout_callback \<Rightarrow> page \<Rightarrow> page" where
  "run_timeout (FormSuccessTimeout i) s =
     (case contactForm s of None \<Rightarrow> s
      | Some frm \<Rightarrow>
        (let frm1 = form_reset frm;
             frm2 = classList_remove FORM_SUCCESS frm1
         in s\<lparr>contactForm :=
                Some (frm2\<lparr>successElements := filter (\<lambda>b. node_id b \<noteq> i) (successElements frm2)\<rparr>)\<rparr>))"

text \<open>
  \<open>handleFormSubmit\<close>: the event's target is the contact form, on which alone the
  listener is registered. \<open>preventDefault\<close> is called before the \<open>try\<close> block.
\<close>

definition handleFormSubmit :: "dom_event \<Rightarrow> page \<Rightarrow> dom_event \<times> page" where
  "handleFormSubmit event s =
     (let event1 = preventDefault event
      in case contactForm s of None \<Rightarrow> (event1, s)
         | Some frm \<Rightarrow>
           (case validateForm frm of
              (frm1, Inl err) \<Rightarrow>
                (event1, logError ''Form submit handler'' err (s\<lparr>contactForm := Some frm1\<rparr>))
            | (frm1, Inr isValid) \<Rightarrow>
                if \<not> isValid then (event1, s\<lparr>contactForm := Some frm1\<rparr>)
                else (event1,
                      showFormSuccess frm1
                        (console_log ''Form is valid and ready to submit''
                           (s\<lparr>contactForm := Some frm1\<rparr>)))))"

text \<open>Nothing in the \<open>try\<close> blocks of \<open>initFormValidation\<close> and
  \<open>initKeyboardAccessibility\<close> raises.\<close>

definition initFormValidation :: "page \<Rightarrow> page" where
  "initFormValidation s =
     (case contactForm s of None \<Rightarrow> s
      | Some frm \<Rightarrow>
        (let frm1 = addEventListener ''submit'' HandleFormSubmit frm
         in s\<lparr>contactForm :=
                Some (frm1\<lparr>inputs :=
                        map (\<lambda>input. addEventListener ''input'' ClearFieldError
                                       (addEventListener ''blur'' ValidateField input))
                            (inputs frm1)\<rparr>)\<rparr>))"

subsection \<open>Keyboard accessibility\<close>

definition handleSkipLink :: "dom_event \<Rightarrow> page \<Rightarrow> dom_event \<times> page" where
  "handleSkipLink event s =
     (let event1 = preventDefault event
      in case mainElement s of None \<Rightarrow> (event1, s)
         | Some i \<Rightarrow> (event1, focus_transiently i s))"

definition initKeyboardAccessibility :: "page \<Rightarrow> page" where
  "initKeyboardAccessibility s =
     s\<lparr>skipLink := map_option (addEventListener ''click'' HandleSkipLink) (skipLink s),
       cards := map (\<lambda>card. if \<not> hasAttribute ''tabindex'' card
                            then setAttribute ''tabindex'' ''0'' card else card) (cards s)\<rparr>"

subsection \<open>Initialization\<close>

text \<open>Every initializer has its own \<open>try\<close> block, so the \<open>catch\<close> of
  \<open>initializeFeatures\<close> is never entered.\<close>

definition initializeFeatures :: "page \<Rightarrow> page" where
  "initializeFeatures s =
     (let s1 = initSmoothScrolling s;
          s2 = initMobileMenu s1;
          s3 = initLazyLoading s2;
          s4 = initScrollToTop s3;
          s5 = initFormValidation s4;
          s6 = initKeyboardAccessibility s5
      in console_log ''[Fresh & Clean Laundry] Interactive features initialized successfully'' s6)"

definition init :: "page \<Rightarrow> page" where
  "init s =
     (if readyState s = ''loading''
      then s\<lparr>documentListeners :=
               add_listener ''DOMContentLoaded'' InitializeFeatures (documentListeners s)\<rparr>
      else initializeFeatures s)"

subsection \<open>A document with none of the elements the script looks for\<close>

definition empty_element :: element where
  "empty_element = \<lparr>classList = [], attributes = [], listeners = []\<rparr>"

definition empty_page :: page where
  "empty_page =
     \<lparr>console = [], readyState = ''complete'', documentListeners = [], windowListeners = [],
      styleIds = [], header = None, nav = None, menuToggle = None, navLinks = [],
      scrollButton = None, pageYOffset = 0, scrollTop = 0, innerWidth = 1024,
      querySelector = (\<lambda>sel. Inr None),
      elements = (\<lambda>i. \<lparr>classList = [], attributes = [], listeners = [], rectTop = 0\<rparr>),
      mainElement = None, scrollToCalls = [], hasPushState = True, pushStateRaises = None,
      pushStateCalls = [], focusCalls = [], lazyImages = [], hasIntersectionObserver = True,
      observers = [], contactForm = None, timers = [], nextId = 0, skipLink = None,
      cards = []\<rparr>"

subsection \<open>States and events of the mobile menu\<close>

text \<open>The closed state: the navigation and the toggle button are there and neither has
  the class \<open>mobile-menu-open\<close>. The open state, as \<open>openMobileMenu\<close> leaves it.\<close>

definition menu_closed :: "page \<Rightarrow> bool" where
  "menu_closed s =
     (case nav s of None \<Rightarrow> False
      | Some n \<Rightarrow>
        (case menuToggle s of None \<Rightarrow> False
         | Some t \<Rightarrow>
           \<not> classList_contains MOBILE_MENU_OPEN n \<and> \<not> classList_contains MOBILE_MENU_OPEN t))"

definition menu_open :: "page \<Rightarrow> bool" where
  "menu_open s =
     (case nav s of None \<Rightarrow> False
      | Some n \<Rightarrow>
        (case menuToggle s of None \<Rightarrow> False
         | Some t \<Rightarrow>
           classList_contains MOBILE_MENU_OPEN n \<and> classList_contains MOBILE_MENU_OPEN t
           \<and> getAttribute ''aria-expanded'' t = Some ''true''))"

text \<open>The three marks of the open menu agree (on a page that has both elements).\<close>

definition menu_in_sync :: "page \<Rightarrow> bool" where
  "menu_in_sync s =
     (case nav s of None \<Rightarrow> True
      | Some n \<Rightarrow>
        (case menuToggle s of None \<Rightarrow> True
         | Some t \<Rightarrow>
           (classList_contains MOBILE_MENU_OPEN n \<longleftrightarrow> classList_contains MOBILE_MENU_OPEN t)
           \<and> (classList_contains MOBILE_MENU_OPEN n
                \<longleftrightarrow> getAttribute ''aria-expanded'' t = Some ''true'')))"

text \<open>The operations on the menu: the two functions themselves and the events whose
  handlers call them. A resize sets the window's width before its handler runs.\<close>

datatype menu_event =
    OpenMenu | CloseMenu | ToggleClick
  | DocumentClick click_event
  | KeyDown key_event
  | WindowResize int
  | NavLinkClick element dom_event

fun menu_step :: "menu_event \<Rightarrow> page \<Rightarrow> page" where
  "menu_step OpenMenu s = openMobileMenu s"
| "menu_step CloseMenu s = closeMobileMenu s"
| "menu_step ToggleClick s = toggleMobileMenu s"
| "menu_step (DocumentClick event) s = handleOutsideClick event s"
| "menu_step (KeyDown event) s = handleEscapeKey event s"
| "menu_step (WindowResize w) s = handleResize (s\<lparr>innerWidth := w\<rparr>)"
| "menu_step (NavLinkClick link event) s = snd (handleSmoothScroll link event s)"

text \<open>A page with a navigation and the toggle button as \<open>createMobileMenuToggle\<close> makes it.\<close>

definition closed_menu_page :: page where
  "closed_menu_page =
     empty_page\<lparr>nav := Some empty_element,
                menuToggle := Some \<lparr>classList = [''mobile-menu-toggle''],
                                    attributes = [(''aria-label'', ''Toggle navigation menu''),
                                                  (''aria-expanded'', ''false'')],
                                    listeners = []\<rparr>\<rparr>"

text \<open>A page with a navigation and a toggle button that the markup supplies, without
  \<open>aria-expanded\<close>; \<open>initMobileMenu\<close> uses such a button as it is.\<close>

definition markup_menu_page :: page where
  "markup_menu_page =
     empty_page\<lparr>nav := Some empty_element,
                menuToggle := Some \<lparr>classList = [''mobile-menu-toggle''],
                                    attributes = [(''aria-label'', ''Menu'')],
                                    listeners = []\<rparr>\<rparr>"

subsection \<open>What a validated field shows\<close>




text \<open>An input of a given type in a parent of its own, as the markup has it before the
  script touches it; \<open>req\<close> says whether it has the attribute \<open>required\<close>.\<close>

definition text_input :: "string \<Rightarrow> bool \<Rightarrow> jsstring \<Rightarrow> field" where
  "text_input ty req v =
     \<lparr>classList = [], attributes = (if req then [(''required'', [])] else []), listeners = [],
      field_value = v, defaultValue = [], field_type = ty, parentElement = Some []\<rparr>"

text \<open>A page whose only element is a contact form with the given fields and
  \<open>.form-success\<close> elements.\<close>

definition form_page :: "field list \<Rightarrow> banner list \<Rightarrow> page" where
  "form_page fs bs =
     empty_page\<lparr>contactForm := Some \<lparr>classList = [], attributes = [], listeners = [],
                                      inputs = fs, successElements = bs\<rparr>,
                nextId := Suc (sum_list (map node_id bs))\<rparr>"

subsection \<open>A field that matches \<open>.field-error\<close> itself\<close>

text \<open>
  \<open>field.parentElement.querySelector('.field-error')\<close> searches all the elements under
  the parent, the field among them. \<open>selfFirst\<close> says that the field itself is the first
  of them that matches: it has the class \<open>field-error\<close> and no other such element comes
  before it. Then \<open>errorElement.remove()\<close> in \<open>clearFieldError\<close> removes the field from its
  parent. With \<open>selfFirst\<close> false these are \<open>clearFieldError\<close> and \<open>validateField\<close> above.
\<close>

definition clearFieldError_matching :: "bool \<Rightarrow> field \<Rightarrow> field \<times> (exn + unit)" where
  "clearFieldError_matching selfFirst f =
     (let f1 = classList_remove FORM_ERROR f;
          f2 = removeAttribute ''aria-invalid'' f1
      in case parentElement f2 of
           None \<Rightarrow> (f2, Inl TypeError)
         | Some others \<Rightarrow>
             if selfFirst \<and> classList_contains ''field-error'' f2
             then (f2\<lparr>parentElement := None\<rparr>, Inr ())
             else (case others of
                     [] \<Rightarrow> (f2, Inr ())
                   | errorElement # rest \<Rightarrow> (f2\<lparr>parentElement := Some rest\<rparr>, Inr ())))"

definition validateField_matching :: "bool \<Rightarrow> field \<Rightarrow> field \<times> (exn + bool)" where
  "validateField_matching selfFirst f =
     (let val = trim (field_value f);
          type = field_type f;
          required = hasAttribute ''required'' f
      in case clearFieldError_matching selfFirst f of
           (f1, Inl err) \<Rightarrow> (f1, Inl err)
         | (f1, Inr u) \<Rightarrow>
             if required \<and> val = [] then fail_with ''This field is required'' f1
             else if type = ''email'' \<and> val \<noteq> [] \<and> \<not> regex_test emailRegex val
             then fail_with ''Please enter a valid email address'' f1
             else if type = ''tel'' \<and> val \<noteq> [] \<and> \<not> regex_test phoneRegex val
             then fail_with ''Please enter a valid phone number'' f1
             else (f1, Inr True))"

text \<open>A required text input without a value that the markup gives the class
  \<open>field-error\<close>, in a parent of its own, with the listeners \<open>initFormValidation\<close>
  registers on it.\<close>

definition classed_field :: field where
  "classed_field =
     \<lparr>classList = [''field-error''], attributes = [(''required'', [])],
      listeners = [(''blur'', ValidateField), (''input'', ClearFieldError)],
      field_value = [], defaultValue = [], field_type = ''text'', parentElement = Some []\<rparr>"

section \<open>Properties\<close>

lemma classList_add_contains: "classList_contains c (classList_add c e)"
  by (simp add: classList_contains_def classList_add_def)

lemma classList_remove_contains: "\<not> classList_contains c (classList_remove c e)"
  by (simp add: classList_contains_def classList_remove_def)

subsection \<open>Elements\<close>

lemma classList_add_remove:
  "\<not> classList_contains c e \<Longrightarrow> classList_remove c (classList_add c e) = e"
  by (simp add: classList_contains_def classList_add_def classList_remove_def)

lemma classList_setAttribute [simp]: "classList (setAttribute k v e) = classList e"
  by (simp add: setAttribute_def)

lemma classList_removeAttribute [simp]: "classList (removeAttribute k e) = classList e"
  by (simp add: removeAttribute_def)

lemma attributes_classList_add [simp]: "attributes (classList_add c e) = attributes e"
  by (simp add: classList_add_def)

lemma attributes_classList_remove [simp]: "attributes (classList_remove c e) = attributes e"
  by (simp add: classList_remove_def)

lemma contains_setAttribute [simp]:
  "classList_contains c (setAttribute k v e) = classList_contains c e"
  by (simp add: classList_contains_def)

lemma contains_removeAttribute [simp]:
  "classList_contains c (removeAttribute k e) = classList_contains c e"
  by (simp add: classList_contains_def)

lemma contains_addEventListener [simp]:
  "classList_contains c (addEventListener ty h e) = classList_contains c e"
  by (simp add: classList_contains_def addEventListener_def)

lemma getAttribute_setAttribute [simp]: "getAttribute k (setAttribute k v e) = Some v"
  by (simp add: getAttribute_def setAttribute_def update_Some_unfold)

lemma getAttribute_removeAttribute [simp]: "getAttribute k (removeAttribute k e) = None"
  by (simp add: getAttribute_def removeAttribute_def delete_conv')

lemma getAttribute_classList_add [simp]: "getAttribute k (classList_add c e) = getAttribute k e"
  by (simp add: getAttribute_def)

lemma getAttribute_classList_remove [simp]:
  "getAttribute k (classList_remove c e) = getAttribute k e"
  by (simp add: getAttribute_def)

lemma getAttribute_addEventListener [simp]:
  "getAttribute k (addEventListener ty h e) = getAttribute k e"
  by (simp add: getAttribute_def addEventListener_def)

lemma add_remove_set_unset:
  assumes "\<not> classList_contains c t" and "getAttribute k t = Some v"
  shows "setAttribute k v (classList_remove c (setAttribute k v' (classList_add c t))) = t"
  using assms
  by (simp add: classList_contains_def classList_add_def classList_remove_def
      setAttribute_def getAttribute_def update_triv)

subsection \<open>Scroll-to-top visibility\<close>

text \<open>
  C2. After \<open>handleScroll\<close> has run on a page that has the scroll-to-top button, the
  button has the class \<open>visible\<close> if and only if the vertical scroll offset (the value
  the handler reads, \<open>window.pageYOffset || document.documentElement.scrollTop\<close>) is
  strictly greater than 300. So the button lacks the class at offset 0 and at exactly 300,
  and has it at every offset above 300.
\<close>

theorem handleScroll_visible_iff:
  assumes "scrollButton s = Some b"
  shows "\<exists>b'. scrollButton (handleScroll s) = Some b'
           \<and> (classList_contains ''visible'' b' \<longleftrightarrow> scrollPosition s > 300)"
  using assms
  by (simp add: handleScroll_def SCROLL_TO_TOP_THRESHOLD_def SCROLL_TO_TOP_VISIBLE_def
      classList_add_contains classList_remove_contains)

theorem handleScroll_visible_iff_witness:
  "(\<exists>b'. scrollButton (handleScroll (empty_page\<lparr>scrollButton := Some empty_element,
                                                 pageYOffset := 300\<rparr>)) = Some b'
         \<and> \<not> classList_contains ''visible'' b')
   \<and> (\<exists>b'. scrollButton (handleScroll (empty_page\<lparr>scrollButton := Some empty_element,
                                                   pageYOffset := 301\<rparr>)) = Some b'
         \<and> classList_contains ''visible'' b')
   \<and> (\<exists>b'. scrollButton (handleScroll (empty_page\<lparr>scrollButton :=
                                                     Some (empty_element\<lparr>classList := [''visible'']\<rparr>),
                                                   pageYOffset := 0\<rparr>)) = Some b'
         \<and> \<not> classList_contains ''visible'' b')"
  using
    handleScroll_visible_iff [of "empty_page\<lparr>scrollButton := Some empty_element, pageYOffset := 300\<rparr>"
      empty_element]
    handleScroll_visible_iff [of "empty_page\<lparr>scrollButton := Some empty_element, pageYOffset := 301\<rparr>"
      empty_element]
    handleScroll_visible_iff [of "empty_page\<lparr>scrollButton := Some (empty_element\<lparr>classList := [''visible'']\<rparr>),
                                              pageYOffset := 0\<rparr>"
      "empty_element\<lparr>classList := [''visible'']\<rparr>"]
  by (simp add: scrollPosition_def empty_page_def)

subsection \<open>Mobile menu\<close>

text \<open>
  C4, as the code has it. From the closed state (navigation and toggle button there,
  neither with the class \<open>mobile-menu-open\<close>) a toggle opens the menu, and a second toggle
  leaves the page as it was but for the button's \<open>aria-expanded\<close>, which is \<open>false\<close>: the
  class lists of the navigation and of the button are as they were. When
  \<open>aria-expanded\<close> was \<open>false\<close> at the start, as on the button \<open>createMobileMenuToggle\<close>
  makes and after any \<open>closeMobileMenu\<close>, the page is the very page it started from.
\<close>

theorem toggle_open_then_close:
  assumes "menu_closed s"
  shows "menu_open (toggleMobileMenu s)
         \<and> toggleMobileMenu (toggleMobileMenu s)
             = s\<lparr>menuToggle := map_option (setAttribute ''aria-expanded'' ''false'') (menuToggle s)\<rparr>
         \<and> nav (toggleMobileMenu (toggleMobileMenu s)) = nav s
         \<and> map_option classList (menuToggle (toggleMobileMenu (toggleMobileMenu s)))
             = map_option classList (menuToggle s)
         \<and> map_option (getAttribute ''aria-expanded'') (menuToggle (toggleMobileMenu (toggleMobileMenu s)))
             = Some (Some ''false'')
         \<and> (map_option (getAttribute ''aria-expanded'') (menuToggle s) = Some (Some ''false'')
              \<longrightarrow> toggleMobileMenu (toggleMobileMenu s) = s)"
proof -
  from assms obtain n t where nt: "nav s = Some n" "menuToggle s = Some t"
    and n: "\<not> classList_contains MOBILE_MENU_OPEN n"
    and t: "\<not> classList_contains MOBILE_MENU_OPEN t"
    by (auto simp: menu_closed_def split: option.splits)
  have 1: "toggleMobileMenu s = openMobileMenu s"
    using nt n by (simp add: toggleMobileMenu_def)
  have 2: "toggleMobileMenu (openMobileMenu s) = closeMobileMenu (openMobileMenu s)"
    using nt by (simp add: toggleMobileMenu_def openMobileMenu_def classList_add_contains)
  have e: "setAttribute ''aria-expanded'' ''false''
             (classList_remove MOBILE_MENU_OPEN
               (setAttribute ''aria-expanded'' ''true'' (classList_add MOBILE_MENU_OPEN t)))
           = setAttribute ''aria-expanded'' ''false'' t"
    using t
    by (simp add: classList_contains_def classList_add_def classList_remove_def setAttribute_def)
  have 3: "closeMobileMenu (openMobileMenu s)
             = s\<lparr>menuToggle := Some (setAttribute ''aria-expanded'' ''false'' t)\<rparr>"
    using nt n by (simp add: closeMobileMenu_def openMobileMenu_def classList_add_remove e)
  have 4: "menu_open (openMobileMenu s)"
    using nt by (simp add: menu_open_def openMobileMenu_def classList_add_contains)
  have 5: "setAttribute ''aria-expanded'' ''false'' t = t"
    if "getAttribute ''aria-expanded'' t = Some ''false''"
    using that by (simp add: setAttribute_def getAttribute_def update_triv)
  have 6: "s\<lparr>menuToggle := Some t\<rparr> = s"
    using nt by simp
  show ?thesis
    using nt 5 6 by (auto simp: 1 2 3 4)
qed

theorem toggle_open_then_close_witness:
  "menu_closed closed_menu_page
   \<and> menu_open (toggleMobileMenu closed_menu_page)
   \<and> toggleMobileMenu (toggleMobileMenu closed_menu_page) = closed_menu_page"
proof -
  have c: "menu_closed closed_menu_page"
    by (simp add: menu_closed_def closed_menu_page_def empty_page_def empty_element_def
        classList_contains_def MOBILE_MENU_OPEN_def)
  have a: "map_option (getAttribute ''aria-expanded'') (menuToggle closed_menu_page)
             = Some (Some ''false'')"
    by (simp add: closed_menu_page_def getAttribute_def)
  from c a toggle_open_then_close [OF c] show ?thesis by blast
qed

text \<open>
  C4 as stated fails on a closed menu whose toggle button comes from the markup without
  \<open>aria-expanded\<close>: neither element has the open class, and after a toggle and a second
  toggle the button has \<open>aria-expanded\<close> \<open>false\<close>, which it did not have.
\<close>

theorem toggle_twice_sets_aria_expanded:
  "menu_closed markup_menu_page
   \<and> map_option (getAttribute ''aria-expanded'') (menuToggle markup_menu_page) = Some None
   \<and> map_option (getAttribute ''aria-expanded'')
        (menuToggle (toggleMobileMenu (toggleMobileMenu markup_menu_page))) = Some (Some ''false'')
   \<and> toggleMobileMenu (toggleMobileMenu markup_menu_page) \<noteq> markup_menu_page"
proof -
  have 1: "menu_closed markup_menu_page"
    by (simp add: menu_closed_def markup_menu_page_def empty_page_def empty_element_def
        classList_contains_def MOBILE_MENU_OPEN_def)
  have 2: "map_option (getAttribute ''aria-expanded'') (menuToggle markup_menu_page) = Some None"
    by (simp add: markup_menu_page_def getAttribute_def)
  have 3: "map_option (getAttribute ''aria-expanded'')
        (menuToggle (toggleMobileMenu (toggleMobileMenu markup_menu_page))) = Some (Some ''false'')"
    by (simp add: toggleMobileMenu_def openMobileMenu_def closeMobileMenu_def
        markup_menu_page_def empty_page_def empty_element_def classList_contains_def
        classList_add_def classList_remove_def setAttribute_def getAttribute_def
        MOBILE_MENU_OPEN_def)
  from 2 3 have "toggleMobileMenu (toggleMobileMenu markup_menu_page) \<noteq> markup_menu_page"
    by auto
  with 1 2 3 show ?thesis by simp
qed

text \<open>
  C9. The navigation has the class \<open>mobile-menu-open\<close> if and only if the toggle button
  has it, and if and only if the button's \<open>aria-expanded\<close> is \<open>true\<close>. Every operation on
  the menu keeps this: open, close, toggle, a click on the document, a key press, a
  resize of the window, and a click on a navigation link (which closes the menu after
  scrolling). So it holds after any sequence of them.
\<close>

lemma closeMobileMenu_in_sync: "menu_in_sync s \<Longrightarrow> menu_in_sync (closeMobileMenu s)"
  by (auto simp: menu_in_sync_def closeMobileMenu_def classList_remove_contains
      split: option.splits)

lemma openMobileMenu_in_sync: "menu_in_sync s \<Longrightarrow> menu_in_sync (openMobileMenu s)"
  by (auto simp: menu_in_sync_def openMobileMenu_def classList_add_contains
      split: option.splits)

lemma menu_in_sync_cong:
  "nav s' = nav s \<Longrightarrow> menuToggle s' = menuToggle s \<Longrightarrow> menu_in_sync s' = menu_in_sync s"
  by (simp add: menu_in_sync_def split: option.splits)

lemma nav_focus_transiently [simp]: "nav (focus_transiently i s) = nav s"
  by (simp add: focus_transiently_def Let_def)

lemma menuToggle_focus_transiently [simp]: "menuToggle (focus_transiently i s) = menuToggle s"
  by (simp add: focus_transiently_def Let_def)

lemma handleSmoothScroll_in_sync:
  assumes "menu_in_sync s"
  shows "menu_in_sync (snd (handleSmoothScroll link event s))"
  using assms
  by (auto simp: handleSmoothScroll_def handleSmoothScroll_body_def menu_in_sync_def
      closeMobileMenu_def logError_def Let_def classList_remove_contains
      split: option.splits list.splits sum.splits)

lemma menu_step_in_sync: "menu_in_sync s \<Longrightarrow> menu_in_sync (menu_step ev s)"
proof (cases ev)
  case OpenMenu
  then show "menu_in_sync s \<Longrightarrow> ?thesis" by (simp add: openMobileMenu_in_sync)
next
  case CloseMenu
  then show "menu_in_sync s \<Longrightarrow> ?thesis" by (simp add: closeMobileMenu_in_sync)
next
  case ToggleClick
  then show "menu_in_sync s \<Longrightarrow> ?thesis"
    by (simp add: toggleMobileMenu_def openMobileMenu_in_sync closeMobileMenu_in_sync
        split: option.splits)
next
  case (DocumentClick e)
  then show "menu_in_sync s \<Longrightarrow> ?thesis"
    by (simp add: handleOutsideClick_def closeMobileMenu_in_sync split: option.splits)
next
  case (KeyDown e)
  then show "menu_in_sync s \<Longrightarrow> ?thesis"
    by (simp add: handleEscapeKey_def closeMobileMenu_in_sync)
next
  case (WindowResize w)
  assume "menu_in_sync s"
  then have "menu_in_sync (s\<lparr>innerWidth := w\<rparr>)"
    by (simp add: menu_in_sync_cong [of "s\<lparr>innerWidth := w\<rparr>" s])
  with WindowResize show ?thesis
    by (simp add: handleResize_def closeMobileMenu_in_sync)
next
  case (NavLinkClick link e)
  then show "menu_in_sync s \<Longrightarrow> ?thesis" by (simp add: handleSmoothScroll_in_sync)
qed

theorem menu_operations_keep_sync:
  assumes "menu_in_sync s"
  shows "menu_in_sync (fold menu_step evs s)"
  using assms by (induction evs arbitrary: s) (simp_all add: menu_step_in_sync)

theorem menu_operations_keep_sync_witness:
  "menu_in_sync closed_menu_page
   \<and> menu_in_sync (fold menu_step
        [ToggleClick, DocumentClick \<lparr>targetInNav = True, targetInToggle = False\<rparr>,
         KeyDown \<lparr>key = ''Escape'', keyCode = 27\<rparr>, OpenMenu, WindowResize 800]
        closed_menu_page)"
proof -
  have c: "menu_in_sync closed_menu_page"
    by (simp add: menu_in_sync_def closed_menu_page_def empty_page_def empty_element_def
        classList_contains_def getAttribute_def MOBILE_MENU_OPEN_def)
  from c menu_operations_keep_sync [OF c,
      of "[ToggleClick, DocumentClick \<lparr>targetInNav = True, targetInToggle = False\<rparr>,
           KeyDown \<lparr>key = ''Escape'', keyCode = 27\<rparr>, OpenMenu, WindowResize 800]"]
  show ?thesis by blast
qed

subsection \<open>Lazy images\<close>

text \<open>
  C7, as the code has it. An image that is complete when \<open>loadImage\<close> runs and has a
  non-empty \<open>src\<close> attribute has the class \<open>lazy-loaded\<close> when \<open>loadImage\<close> returns, with no
  \<open>load\<close> event in between. An image with no \<open>src\<close> attribute or an empty one is left
  as it is, complete or not.
\<close>

theorem loadImage_complete_marked:
  "(complete img \<and> (\<exists>src. getAttribute ''src'' img = Some src \<and> src \<noteq> [])
      \<longrightarrow> classList_contains ''lazy-loaded'' (loadImage img))
   \<and> (getAttribute ''src'' img = None \<or> getAttribute ''src'' img = Some []
      \<longrightarrow> loadImage img = img)"
  by (auto simp: loadImage_def LAZY_LOADED_def Let_def classList_add_contains
      addEventListener_def)

theorem loadImage_complete_marked_witness:
  "complete \<lparr>classList = [], attributes = [(''src'', ''a.jpg'')], listeners = [], complete = True\<rparr>
   \<and> getAttribute ''src''
        \<lparr>classList = [], attributes = [(''src'', ''a.jpg'')], listeners = [], complete = True\<rparr>
       = Some ''a.jpg''
   \<and> classList_contains ''lazy-loaded''
        (loadImage \<lparr>classList = [], attributes = [(''src'', ''a.jpg'')], listeners = [],
                    complete = True\<rparr>)
   \<and> getAttribute ''src''
        \<lparr>classList = [], attributes = [(''src'', [])], listeners = [], complete = True\<rparr>
       = Some []
   \<and> loadImage \<lparr>classList = [], attributes = [(''src'', [])], listeners = [], complete = True\<rparr>
       = \<lparr>classList = [], attributes = [(''src'', [])], listeners = [], complete = True\<rparr>"
proof -
  let ?a = "\<lparr>classList = [], attributes = [(''src'', ''a.jpg'')], listeners = [], complete = True\<rparr>"
  let ?b = "\<lparr>classList = [], attributes = [(''src'', [])], listeners = [], complete = True\<rparr>"
  have a: "getAttribute ''src'' ?a = Some ''a.jpg''" by (simp add: getAttribute_def)
  have b: "getAttribute ''src'' ?b = Some []" by (simp add: getAttribute_def)
  from a loadImage_complete_marked [of ?a]
  have 1: "classList_contains ''lazy-loaded'' (loadImage ?a)" by simp
  from b loadImage_complete_marked [of ?b]
  have 2: "loadImage ?b = ?b" by simp
  from a b 1 2 show ?thesis by simp
qed

text \<open>C7 as stated fails on a complete image that has no \<open>src\<close> attribute (an image
  without \<open>src\<close> and \<open>srcset\<close> is complete): \<open>loadImage\<close> leaves it unmarked.\<close>

theorem loadImage_complete_unmarked:
  "complete \<lparr>classList = [], attributes = [], listeners = [], complete = True\<rparr>
   \<and> \<not> classList_contains ''lazy-loaded''
        (loadImage \<lparr>classList = [], attributes = [], listeners = [], complete = True\<rparr>)"
  by (simp add: loadImage_def LAZY_LOADED_def classList_contains_def getAttribute_def)


subsection \<open>The patterns and \<open>trim\<close>\<close>







subsection \<open>Validation of a field\<close>











subsection \<open>Submitting the form\<close>

lemma field_value_clearFieldError [simp]:
  "field_value (fst (clearFieldError f)) = field_value f"
  by (simp add: clearFieldError_def Let_def classList_remove_def removeAttribute_def
      split: option.splits list.splits)

lemma field_value_fail_with [simp]: "field_value (fst (fail_with message f)) = field_value f"
  by (simp add: fail_with_def showFieldError_def Let_def classList_add_def setAttribute_def
      split: option.splits list.splits)

lemma field_value_validateField [simp]: "field_value (fst (validateField f)) = field_value f"
proof -
  obtain f1 r where c: "clearFieldError f = (f1, r)" by (cases "clearFieldError f") auto
  then have "field_value f1 = field_value f"
    using field_value_clearFieldError [of f] by simp
  then show ?thesis
    by (cases r) (simp_all add: validateField_def c Let_def)
qed

lemma defaultValue_clearFieldError [simp]:
  "defaultValue (fst (clearFieldError f)) = defaultValue f"
  by (simp add: clearFieldError_def Let_def classList_remove_def removeAttribute_def
      split: option.splits list.splits)

lemma defaultValue_fail_with [simp]: "defaultValue (fst (fail_with message f)) = defaultValue f"
  by (simp add: fail_with_def showFieldError_def Let_def classList_add_def setAttribute_def
      split: option.splits list.splits)

lemma validateForm_loop_values:
  "map field_value (fst (validateForm_loop fs isValid)) = map field_value fs"
proof (induction fs arbitrary: isValid)
  case Nil
  then show ?case by simp
next
  case (Cons f fs)
  obtain f' r where v: "validateField f = (f', r)" by (cases "validateField f") auto
  then have f': "field_value f' = field_value f"
    using field_value_validateField [of f] by simp
  show ?case
  proof (cases r)
    case (Inl err)
    with v f' show ?thesis by simp
  next
    case (Inr ok)
    obtain fs' r2 where l: "validateForm_loop fs (if \<not> ok then False else isValid) = (fs', r2)"
      by (cases "validateForm_loop fs (if \<not> ok then False else isValid)") auto
    with Cons.IH [of "if \<not> ok then False else isValid"]
    have "map field_value fs' = map field_value fs" by simp
    with v f' Inr l show ?thesis by simp
  qed
qed

lemma validateForm_loop_valid:
  "snd (validateForm_loop fs isValid) = Inr True
     \<longleftrightarrow> isValid \<and> (\<forall>f\<in>set fs. snd (validateField f) = Inr True)"
proof (induction fs arbitrary: isValid)
  case Nil
  then show ?case by simp
next
  case (Cons f fs)
  obtain f' r where v: "validateField f = (f', r)" by (cases "validateField f") auto
  show ?case
  proof (cases r)
    case (Inl err)
    with v show ?thesis by simp
  next
    case (Inr ok)
    obtain fs' r2 where l: "validateForm_loop fs (if \<not> ok then False else isValid) = (fs', r2)"
      by (cases "validateForm_loop fs (if \<not> ok then False else isValid)") auto
    with Cons.IH [of "if \<not> ok then False else isValid"]
    have "r2 = Inr True \<longleftrightarrow> (if \<not> ok then False else isValid)
            \<and> (\<forall>f\<in>set fs. snd (validateField f) = Inr True)" by simp
    with v Inr l show ?thesis by auto
  qed
qed

lemma validateForm_frame:
  "validateForm frm = (frm1, r) \<Longrightarrow>
     classList frm1 = classList frm \<and> successElements frm1 = successElements frm
     \<and> map field_value (inputs frm1) = map field_value (inputs frm)
     \<and> (r = Inr True \<longleftrightarrow> (\<forall>f\<in>set (inputs frm). snd (validateField f) = Inr True))"
  using validateForm_loop_values [of "inputs frm" True] validateForm_loop_valid [of "inputs frm" True]
  by (auto simp: validateForm_def split: prod.splits)

text \<open>
  C6. \<open>handleFormSubmit\<close> calls \<open>preventDefault\<close> on every submit event, before anything
  else, so the browser never submits the form. When some field does not pass
  validation the handler shows no success banner and sets no timer: the form's
  \<open>.form-success\<close> elements, its class list and the pending timers are as before, and
  every field has the value it had.
\<close>

theorem handleFormSubmit_prevents_default:
  "defaultPrevented (fst (handleFormSubmit event s))
   \<and> (\<forall>frm. contactForm s = Some frm
              \<and> (\<exists>f\<in>set (inputs frm). snd (validateField f) \<noteq> Inr True)
         \<longrightarrow> (\<exists>frm'. contactForm (snd (handleFormSubmit event s)) = Some frm'
                  \<and> successElements frm' = successElements frm
                  \<and> classList frm' = classList frm
                  \<and> map field_value (inputs frm') = map field_value (inputs frm))
             \<and> timers (snd (handleFormSubmit event s)) = timers s)"
proof -
  have 1: "defaultPrevented (fst (handleFormSubmit event s))"
    by (simp add: handleFormSubmit_def Let_def preventDefault_def
        split: option.splits prod.splits sum.splits)
  have 2: "(\<exists>frm'. contactForm (snd (handleFormSubmit event s)) = Some frm'
                  \<and> successElements frm' = successElements frm
                  \<and> classList frm' = classList frm
                  \<and> map field_value (inputs frm') = map field_value (inputs frm))
             \<and> timers (snd (handleFormSubmit event s)) = timers s"
    if frm: "contactForm s = Some frm"
      and bad: "\<exists>f\<in>set (inputs frm). snd (validateField f) \<noteq> Inr True" for frm
  proof -
    obtain frm1 r where v: "validateForm frm = (frm1, r)" by (cases "validateForm frm") auto
    note fr = validateForm_frame [OF v]
    with bad have r: "r \<noteq> Inr True" by blast
    show ?thesis
    proof (cases r)
      case (Inl err)
      with frm v fr show ?thesis
        by (simp add: handleFormSubmit_def Let_def logError_def)
    next
      case (Inr isValid)
      with r have "\<not> isValid" by simp
      with Inr frm v fr show ?thesis
        by (simp add: handleFormSubmit_def Let_def)
    qed
  qed
  from 1 2 show ?thesis by blast
qed

theorem handleFormSubmit_prevents_default_witness:
  "defaultPrevented (fst (handleFormSubmit \<lparr>defaultPrevented = False\<rparr>
                            (form_page [text_input ''email'' True (js ''not-an-email'')] [])))
   \<and> map_option successElements
        (contactForm (snd (handleFormSubmit \<lparr>defaultPrevented = False\<rparr>
                            (form_page [text_input ''email'' True (js ''not-an-email'')] []))))
       = Some []
   \<and> timers (snd (handleFormSubmit \<lparr>defaultPrevented = False\<rparr>
                            (form_page [text_input ''email'' True (js ''not-an-email'')] []))) = []"
proof -
  let ?fld = "text_input ''email'' True (js ''not-an-email'')"
  let ?frm = "\<lparr>classList = [], attributes = [], listeners = [],
               inputs = [?fld], successElements = []\<rparr>"
  have frm: "contactForm (form_page [?fld] []) = Some ?frm"
    by (simp add: form_page_def)
  have bad: "snd (validateField ?fld) \<noteq> Inr True"
    by (simp add: validateField_def clearFieldError_def fail_with_def showFieldError_def
        Let_def text_input_def js_def trim_def isWhiteSpace_def hasAttribute_def
        emailRegex_def notSpaceOrAt_def classList_remove_def removeAttribute_def
        classList_add_def setAttribute_def)
  have tm: "timers (form_page [?fld] []) = []"
    by (simp add: form_page_def empty_page_def)
  from handleFormSubmit_prevents_default
    [of "\<lparr>defaultPrevented = False\<rparr>" "form_page [?fld] []"] frm bad tm
  show ?thesis by auto
qed

text \<open>
  C5, as the code has it. After a submission of a form in which every field passes
  validation the form has the class \<open>success\<close> and a success banner is displayed: a new
  element with the role \<open>status\<close> when the form had no \<open>.form-success\<close> element, and
  otherwise the first such element of the form, as it is. One timer of 5000 ms is set.
  Whenever its callback runs, every field is reset to its default value (which clears a
  field that has none), the class \<open>success\<close> is removed and that banner is removed.
\<close>

theorem valid_submission_banner_and_reset:
  assumes "contactForm s = Some frm"
    and "\<forall>f\<in>set (inputs frm). snd (validateField f) = Inr True"
  shows "\<exists>frm' b others.
           contactForm (snd (handleFormSubmit event s)) = Some frm'
           \<and> classList_contains ''success'' frm'
           \<and> successElements frm' = b # others
           \<and> (case successElements frm of
                 [] \<Rightarrow> getAttribute ''role'' b = Some ''status'' \<and> others = []
               | b0 # others0 \<Rightarrow> b = b0 \<and> others = others0)
           \<and> timers (snd (handleFormSubmit event s))
                = timers s @ [(5000, FormSuccessTimeout (node_id b))]
           \<and> (\<forall>s2 frm2. contactForm s2 = Some frm2 \<longrightarrow>
                 (\<exists>frm3. contactForm (run_timeout (FormSuccessTimeout (node_id b)) s2) = Some frm3
                    \<and> map field_value (inputs frm3) = map defaultValue (inputs frm2)
                    \<and> \<not> classList_contains ''success'' frm3
                    \<and> node_id b \<notin> node_id ` set (successElements frm3)))"
proof -
  obtain frm1 r where v: "validateForm frm = (frm1, r)" by (cases "validateForm frm") auto
  note fr = validateForm_frame [OF v]
  with assms(2) have r: "r = Inr True" by blast
  let ?s1 = "console_log ''Form is valid and ready to submit'' (s\<lparr>contactForm := Some frm1\<rparr>)"
  have h: "snd (handleFormSubmit event s) = showFormSuccess frm1 ?s1"
    using assms(1) v r by (simp add: handleFormSubmit_def Let_def)
  have t: "timers ?s1 = timers s" by (simp add: console_log_def)
  have run: "\<exists>frm3. contactForm (run_timeout (FormSuccessTimeout i) s2) = Some frm3
                    \<and> map field_value (inputs frm3) = map defaultValue (inputs frm2)
                    \<and> \<not> classList_contains ''success'' frm3
                    \<and> i \<notin> node_id ` set (successElements frm3)"
    if "contactForm s2 = Some frm2" for s2 frm2 i
    using that
    by (auto simp: Let_def form_reset_def classList_remove_def classList_contains_def
        FORM_SUCCESS_def comp_def)
  have cc: "classList_contains ''success'' (classList_add ''success'' frm1)"
    "classList_contains ''success'' ((classList_add ''success'' frm1)\<lparr>successElements := x\<rparr>)" for x
    by (simp_all add: classList_contains_def classList_add_def)
  show ?thesis
  proof (cases "successElements frm")
    case Nil
    with fr have "successElements (classList_add FORM_SUCCESS frm1) = []"
      by (simp add: classList_add_def)
    then show ?thesis
      using Nil run t
      by (simp add: h showFormSuccess_def Let_def cc FORM_SUCCESS_def getAttribute_def
          setAttribute_def)
  next
    case (Cons b0 others0)
    with fr have "successElements (classList_add FORM_SUCCESS frm1) = b0 # others0"
      by (simp add: classList_add_def)
    then show ?thesis
      using Cons run t
      by (simp add: h showFormSuccess_def Let_def cc FORM_SUCCESS_def)
  qed
qed

theorem valid_submission_banner_and_reset_witness:
  "snd (validateField (text_input ''email'' True (js ''a@b.co''))) = Inr True
   \<and> (\<exists>frm' b.
         contactForm (snd (handleFormSubmit \<lparr>defaultPrevented = False\<rparr>
                             (form_page [text_input ''email'' True (js ''a@b.co'')] []))) = Some frm'
         \<and> successElements frm' = [b] \<and> getAttribute ''role'' b = Some ''status''
         \<and> timers (snd (handleFormSubmit \<lparr>defaultPrevented = False\<rparr>
                             (form_page [text_input ''email'' True (js ''a@b.co'')] [])))
             = [(5000, FormSuccessTimeout (node_id b))])"
proof -
  let ?fld = "text_input ''email'' True (js ''a@b.co'')"
  let ?frm = "\<lparr>classList = [], attributes = [], listeners = [],
               inputs = [?fld], successElements = []\<rparr>"
  have frm: "contactForm (form_page [?fld] []) = Some ?frm"
    by (simp add: form_page_def)
  have ok: "snd (validateField ?fld) = Inr True"
    by (simp add: validateField_def clearFieldError_def
        Let_def text_input_def js_def trim_def isWhiteSpace_def hasAttribute_def
        emailRegex_def notSpaceOrAt_def classList_remove_def removeAttribute_def)
  then have all: "\<forall>f\<in>set (inputs ?frm). snd (validateField f) = Inr True" by simp
  have tm: "timers (form_page [?fld] []) = []"
    by (simp add: form_page_def empty_page_def)
  from valid_submission_banner_and_reset [OF frm all, of "\<lparr>defaultPrevented = False\<rparr>"] tm ok
  show ?thesis by auto
qed

text \<open>
  C5 as stated fails on a form that has a \<open>.form-success\<close> element of its own without a
  role and a field with a default value: every field passes, the banner displayed is
  that element, which has no \<open>status\<close> role, and when the timer's callback runs the field
  holds its default value, not the empty string.
\<close>

theorem valid_submission_not_cleared:
  "snd (validateField ((text_input ''text'' True (js ''hello''))\<lparr>defaultValue := js ''hi''\<rparr>)) = Inr True
   \<and> map_option (map (getAttribute ''role'') \<circ> successElements)
        (contactForm (snd (handleFormSubmit \<lparr>defaultPrevented = False\<rparr>
           (form_page [(text_input ''text'' True (js ''hello''))\<lparr>defaultValue := js ''hi''\<rparr>]
              [\<lparr>classList = [''form-success''], attributes = [], listeners = [],
                textContent = ''Sent'', node_id = 0\<rparr>]))))
       = Some [None]
   \<and> timers (snd (handleFormSubmit \<lparr>defaultPrevented = False\<rparr>
           (form_page [(text_input ''text'' True (js ''hello''))\<lparr>defaultValue := js ''hi''\<rparr>]
              [\<lparr>classList = [''form-success''], attributes = [], listeners = [],
                textContent = ''Sent'', node_id = 0\<rparr>])))
       = [(5000, FormSuccessTimeout 0)]
   \<and> map_option (map field_value \<circ> inputs)
        (contactForm (run_timeout (FormSuccessTimeout 0)
           (snd (handleFormSubmit \<lparr>defaultPrevented = False\<rparr>
              (form_page [(text_input ''text'' True (js ''hello''))\<lparr>defaultValue := js ''hi''\<rparr>]
                 [\<lparr>classList = [''form-success''], attributes = [], listeners = [],
                   textContent = ''Sent'', node_id = 0\<rparr>])))))
       = Some [js ''hi'']"
  by (simp add: handleFormSubmit_def validateForm_def validateField_def clearFieldError_def
      showFormSuccess_def form_reset_def console_log_def preventDefault_def
      Let_def text_input_def js_def trim_def isWhiteSpace_def hasAttribute_def
      classList_remove_def removeAttribute_def classList_add_def getAttribute_def
      form_page_def empty_page_def FORM_ERROR_def FORM_SUCCESS_def)

subsection \<open>Clicks on navigation links\<close>

text \<open>
  C8. A click on a link whose \<open>href\<close> is absent, does not start with \<open>#\<close> (the empty string
  included), or is a selector that does not resolve to an element (none matches, or the
  string is no selector and \<open>querySelector\<close> raises) changes nothing but, in the last
  case, the console: the event is as it was, so default navigation is not prevented; no
  scroll is issued; nothing is pushed on the history; the navigation and the toggle
  button are as they were; no element is focused or changed.
\<close>

theorem handleSmoothScroll_unresolved_noop:
  assumes "getAttribute ''href'' link = None
           \<or> (\<exists>targetId. getAttribute ''href'' link = Some targetId
                 \<and> (take 1 targetId \<noteq> ''#'' \<or> (\<forall>i. querySelector s targetId \<noteq> Inr (Some i))))"
  shows "fst (handleSmoothScroll link event s) = event
         \<and> scrollToCalls (snd (handleSmoothScroll link event s)) = scrollToCalls s
         \<and> pushStateCalls (snd (handleSmoothScroll link event s)) = pushStateCalls s
         \<and> nav (snd (handleSmoothScroll link event s)) = nav s
         \<and> menuToggle (snd (handleSmoothScroll link event s)) = menuToggle s
         \<and> focusCalls (snd (handleSmoothScroll link event s)) = focusCalls s
         \<and> elements (snd (handleSmoothScroll link event s)) = elements s
         \<and> (snd (handleSmoothScroll link event s) = s
              \<or> (\<exists>targetId err. getAttribute ''href'' link = Some targetId
                    \<and> querySelector s targetId = Inl err
                    \<and> snd (handleSmoothScroll link event s)
                        = logError ''Smooth scroll handler'' err s))"
proof -
  have "handleSmoothScroll link event s = (event, s)
        \<or> (\<exists>targetId err. getAttribute ''href'' link = Some targetId
              \<and> querySelector s targetId = Inl err
              \<and> handleSmoothScroll link event s
                  = (event, logError ''Smooth scroll handler'' err s))"
    using assms
    by (auto simp: handleSmoothScroll_def handleSmoothScroll_body_def
        split: option.splits list.splits sum.splits)
  then show ?thesis
    by (auto simp: logError_def)
qed

theorem handleSmoothScroll_unresolved_noop_witness:
  "getAttribute ''href'' (empty_element\<lparr>attributes := [(''href'', ''#pricing'')]\<rparr>) = Some ''#pricing''
   \<and> querySelector empty_page ''#pricing'' = Inr None
   \<and> handleSmoothScroll (empty_element\<lparr>attributes := [(''href'', ''#pricing'')]\<rparr>)
        \<lparr>defaultPrevented = False\<rparr> empty_page
       = (\<lparr>defaultPrevented = False\<rparr>, empty_page)
   \<and> snd (handleSmoothScroll (empty_element\<lparr>attributes := [(''href'', ''#'')]\<rparr>)
        \<lparr>defaultPrevented = False\<rparr> (empty_page\<lparr>querySelector := (\<lambda>sel. Inl SyntaxError)\<rparr>))
       = logError ''Smooth scroll handler'' SyntaxError
           (empty_page\<lparr>querySelector := (\<lambda>sel. Inl SyntaxError)\<rparr>)"
proof -
  let ?l1 = "empty_element\<lparr>attributes := [(''href'', ''#pricing'')]\<rparr>"
  let ?l2 = "empty_element\<lparr>attributes := [(''href'', ''#'')]\<rparr>"
  let ?p2 = "empty_page\<lparr>querySelector := (\<lambda>sel. Inl SyntaxError)\<rparr>"
  have a1: "getAttribute ''href'' ?l1 = Some ''#pricing''"
    by (simp add: getAttribute_def empty_element_def)
  have q1: "querySelector empty_page ''#pricing'' = Inr None"
    by (simp add: empty_page_def)
  have a2: "getAttribute ''href'' ?l2 = Some ''#''"
    by (simp add: getAttribute_def empty_element_def)
  have q2: "querySelector ?p2 ''#'' = Inl SyntaxError"
    by simp
  have 1: "handleSmoothScroll ?l1 \<lparr>defaultPrevented = False\<rparr> empty_page
             = (\<lparr>defaultPrevented = False\<rparr>, empty_page)"
    using handleSmoothScroll_unresolved_noop [of ?l1 empty_page "\<lparr>defaultPrevented = False\<rparr>"] a1 q1
    by (auto simp: prod_eq_iff)
  have 2: "snd (handleSmoothScroll ?l2 \<lparr>defaultPrevented = False\<rparr> ?p2)
             = logError ''Smooth scroll handler'' SyntaxError ?p2"
  proof -
    have "snd (handleSmoothScroll ?l2 \<lparr>defaultPrevented = False\<rparr> ?p2) = ?p2
          \<or> snd (handleSmoothScroll ?l2 \<lparr>defaultPrevented = False\<rparr> ?p2)
              = logError ''Smooth scroll handler'' SyntaxError ?p2"
      using handleSmoothScroll_unresolved_noop [of ?l2 ?p2 "\<lparr>defaultPrevented = False\<rparr>"] a2 q2
      by auto
    moreover have "snd (handleSmoothScroll ?l2 \<lparr>defaultPrevented = False\<rparr> ?p2) \<noteq> ?p2"
      by (simp add: handleSmoothScroll_def handleSmoothScroll_body_def a2 logError_def
          empty_page_def page.equality)
    ultimately show ?thesis by blast
  qed
  from a1 q1 1 2 show ?thesis by simp
qed

subsection \<open>Initializers, and a handler without a \<open>try\<close> block\<close>

lemma add_listener_mem: "(ty, h) \<in> set (add_listener ty h ls)"
  by (simp add: add_listener_def)

lemma add_listener_keeps: "x \<in> set ls \<Longrightarrow> x \<in> set (add_listener ty h ls)"
  by (simp add: add_listener_def)

lemma initMobileMenu_frame:
  "lazyImages (initMobileMenu s) = lazyImages s \<and> observers (initMobileMenu s) = observers s
   \<and> hasIntersectionObserver (initMobileMenu s) = hasIntersectionObserver s
   \<and> contactForm (initMobileMenu s) = contactForm s \<and> cards (initMobileMenu s) = cards s
   \<and> scrollButton (initMobileMenu s) = scrollButton s"
  by (simp add: initMobileMenu_def initMobileMenu_body_def try_catch_def logError_def
      initMobileMenu_listeners_def createMobileMenuToggle_def addMobileMenuStyles_def Let_def
      split: option.splits)

lemma initMobileMenu_logs:
  "initMobileMenu_body s = Inl (err, s1) \<Longrightarrow>
     console (initMobileMenu s) = console s1 @ [ConsoleError ''Mobile menu initialization'' err]"
  by (simp add: initMobileMenu_def try_catch_def logError_def)

lemma initLazyLoading_frame:
  "console (initLazyLoading s) = console s \<and> contactForm (initLazyLoading s) = contactForm s
   \<and> cards (initLazyLoading s) = cards s \<and> scrollButton (initLazyLoading s) = scrollButton s"
  by (simp add: initLazyLoading_def Let_def)

lemma initLazyLoading_images:
  "lazyImages (initLazyLoading s)
     = (if hasIntersectionObserver s then lazyImages s else map loadImage (lazyImages s))
   \<and> observers (initLazyLoading s)
     = (if lazyImages s \<noteq> [] \<and> hasIntersectionObserver s
        then observers s @ [[0 ..< length (lazyImages s)]] else observers s)"
  by (simp add: initLazyLoading_def Let_def)

lemma initScrollToTop_frame:
  "console (initScrollToTop s) = console s \<and> contactForm (initScrollToTop s) = contactForm s
   \<and> cards (initScrollToTop s) = cards s \<and> lazyImages (initScrollToTop s) = lazyImages s
   \<and> observers (initScrollToTop s) = observers s"
  by (simp add: initScrollToTop_def handleScroll_def createScrollToTopButton_def
      addScrollToTopStyles_def Let_def split: option.splits prod.splits)

lemma initScrollToTop_button:
  "\<exists>b. scrollButton (initScrollToTop s) = Some b \<and> (''click'', ScrollToTop) \<in> set (listeners b)"
  by (simp add: initScrollToTop_def handleScroll_def createScrollToTopButton_def
      addScrollToTopStyles_def Let_def addEventListener_def add_listener_mem
      classList_add_def classList_remove_def split: option.splits prod.splits)

lemma initFormValidation_frame:
  "console (initFormValidation s) = console s \<and> cards (initFormValidation s) = cards s
   \<and> lazyImages (initFormValidation s) = lazyImages s
   \<and> observers (initFormValidation s) = observers s
   \<and> scrollButton (initFormValidation s) = scrollButton s"
  by (simp add: initFormValidation_def Let_def split: option.splits)

lemma initFormValidation_listeners:
  assumes "contactForm s = Some frm"
  shows "\<exists>frm'. contactForm (initFormValidation s) = Some frm'
           \<and> (''submit'', HandleFormSubmit) \<in> set (listeners frm')
           \<and> length (inputs frm') = length (inputs frm)
           \<and> (\<forall>f\<in>set (inputs frm'). (''blur'', ValidateField) \<in> set (listeners f)
                                     \<and> (''input'', ClearFieldError) \<in> set (listeners f))"
  using assms
  by (auto simp: initFormValidation_def Let_def addEventListener_def add_listener_mem
      add_listener_keeps)

lemma initKeyboardAccessibility_frame:
  "console (initKeyboardAccessibility s) = console s
   \<and> contactForm (initKeyboardAccessibility s) = contactForm s
   \<and> lazyImages (initKeyboardAccessibility s) = lazyImages s
   \<and> observers (initKeyboardAccessibility s) = observers s
   \<and> scrollButton (initKeyboardAccessibility s) = scrollButton s"
  by (simp add: initKeyboardAccessibility_def)

lemma initKeyboardAccessibility_cards:
  "(\<forall>c\<in>set (cards (initKeyboardAccessibility s)). hasAttribute ''tabindex'' c)
   \<and> length (cards (initKeyboardAccessibility s)) = length (cards s)"
  by (auto simp: initKeyboardAccessibility_def hasAttribute_def setAttribute_def update_conv')

lemma initSmoothScrolling_frame:
  "lazyImages (initSmoothScrolling s) = lazyImages s \<and> observers (initSmoothScrolling s) = observers s
   \<and> hasIntersectionObserver (initSmoothScrolling s) = hasIntersectionObserver s
   \<and> contactForm (initSmoothScrolling s) = contactForm s \<and> cards (initSmoothScrolling s) = cards s"
  by (simp add: initSmoothScrolling_def)

text \<open>
  The initializers each run in a \<open>try\<close> block of their own. When the mobile-menu
  initializer raises (the header has no \<open>.header-container\<close>, or the navigation is not
  its child), the exception is logged with its context and the initializers after it run
  as they would have: the lazy images are observed or loaded, the scroll-to-top button
  is there with its click listener, the form and its fields have their listeners, every
  card has a \<open>tabindex\<close>, and the closing message is logged.
\<close>

lemma initializeFeatures_after_menu_failure:
  "(\<forall>err s1. initMobileMenu_body (initSmoothScrolling s) = Inl (err, s1) \<longrightarrow>
       ConsoleError ''Mobile menu initialization'' err \<in> set (console (initializeFeatures s)))
   \<and> lazyImages (initializeFeatures s)
       = (if hasIntersectionObserver s then lazyImages s else map loadImage (lazyImages s))
   \<and> observers (initializeFeatures s)
       = (if lazyImages s \<noteq> [] \<and> hasIntersectionObserver s
          then observers s @ [[0 ..< length (lazyImages s)]] else observers s)
   \<and> (\<exists>b. scrollButton (initializeFeatures s) = Some b
          \<and> (''click'', ScrollToTop) \<in> set (listeners b))
   \<and> (\<forall>frm. contactForm s = Some frm \<longrightarrow>
         (\<exists>frm'. contactForm (initializeFeatures s) = Some frm'
            \<and> (''submit'', HandleFormSubmit) \<in> set (listeners frm')
            \<and> length (inputs frm') = length (inputs frm)
            \<and> (\<forall>f\<in>set (inputs frm'). (''blur'', ValidateField) \<in> set (listeners f)
                                      \<and> (''input'', ClearFieldError) \<in> set (listeners f))))
   \<and> (\<forall>c\<in>set (cards (initializeFeatures s)). hasAttribute ''tabindex'' c)
   \<and> length (cards (initializeFeatures s)) = length (cards s)
   \<and> last (console (initializeFeatures s))
       = ConsoleLog ''[Fresh & Clean Laundry] Interactive features initialized successfully''"
proof -
  define s1 where "s1 = initSmoothScrolling s"
  define s2 where "s2 = initMobileMenu s1"
  define s3 where "s3 = initLazyLoading s2"
  define s4 where "s4 = initScrollToTop s3"
  define s5 where "s5 = initFormValidation s4"
  define s6 where "s6 = initKeyboardAccessibility s5"
  define msg where "msg = ''[Fresh & Clean Laundry] Interactive features initialized successfully''"
  have fin: "initializeFeatures s = console_log msg s6"
    by (simp add: initializeFeatures_def Let_def s1_def s2_def s3_def s4_def s5_def s6_def msg_def)
  note f1 = initSmoothScrolling_frame [of s, folded s1_def]
  note f2 = initMobileMenu_frame [of s1, folded s2_def]
  note f3 = initLazyLoading_frame [of s2, folded s3_def]
  note i3 = initLazyLoading_images [of s2, folded s3_def]
  note f4 = initScrollToTop_frame [of s3, folded s4_def]
  note b4 = initScrollToTop_button [of s3, folded s4_def]
  note f5 = initFormValidation_frame [of s4, folded s5_def]
  note f6 = initKeyboardAccessibility_frame [of s5, folded s6_def]
  note c6 = initKeyboardAccessibility_cards [of s5, folded s6_def]
  have con: "console (initializeFeatures s) = console s2 @ [ConsoleLog msg]"
    by (simp add: fin console_log_def f3 f4 f5 f6)
  have A: "ConsoleError ''Mobile menu initialization'' err \<in> set (console (initializeFeatures s))"
    if "initMobileMenu_body (initSmoothScrolling s) = Inl (err, t)" for err t
    using initMobileMenu_logs [of s1 err t] that by (simp add: con s1_def s2_def)
  have B: "lazyImages (initializeFeatures s)
       = (if hasIntersectionObserver s then lazyImages s else map loadImage (lazyImages s))"
    by (simp add: fin console_log_def f6 f5 f4 i3 f2 f1)
  have C: "observers (initializeFeatures s)
       = (if lazyImages s \<noteq> [] \<and> hasIntersectionObserver s
          then observers s @ [[0 ..< length (lazyImages s)]] else observers s)"
    by (simp add: fin console_log_def f6 f5 f4 i3 f2 f1)
  have D: "\<exists>b. scrollButton (initializeFeatures s) = Some b
          \<and> (''click'', ScrollToTop) \<in> set (listeners b)"
    using b4 by (simp add: fin console_log_def f6 f5)
  have E: "\<exists>frm'. contactForm (initializeFeatures s) = Some frm'
            \<and> (''submit'', HandleFormSubmit) \<in> set (listeners frm')
            \<and> length (inputs frm') = length (inputs frm)
            \<and> (\<forall>f\<in>set (inputs frm'). (''blur'', ValidateField) \<in> set (listeners f)
                                      \<and> (''input'', ClearFieldError) \<in> set (listeners f))"
    if "contactForm s = Some frm" for frm
  proof -
    from that have "contactForm s4 = Some frm" by (simp add: f4 f3 f2 f1)
    from initFormValidation_listeners [OF this] show ?thesis
      by (simp add: fin console_log_def f6 s5_def)
  qed
  have F: "(\<forall>c\<in>set (cards (initializeFeatures s)). hasAttribute ''tabindex'' c)
            \<and> length (cards (initializeFeatures s)) = length (cards s)"
    using c6 by (simp add: fin console_log_def f5 f4 f3 f2 f1)
  have G: "last (console (initializeFeatures s)) = ConsoleLog msg" by (simp add: con)
  from A B C D E F G show ?thesis unfolding msg_def by blast
qed

lemma validateField_matching_False: "validateField_matching False f = validateField f"
  by (simp add: validateField_matching_def validateField_def clearFieldError_matching_def
      clearFieldError_def Let_def split: option.splits list.splits)

text \<open>
  C3. \<open>validateField\<close> is the listener of \<open>blur\<close> on every field, and it has no \<open>try\<close>
  block. On a required, empty input that has the class \<open>field-error\<close> and is the first
  such element under its parent, \<open>clearFieldError\<close> finds the field itself and removes
  it from its parent, and \<open>showFieldError\<close> then reads \<open>field.parentElement\<close>, which is
  \<open>null\<close>: \<open>validateField\<close> raises a \<open>TypeError\<close> that nothing catches or logs.
\<close>

theorem validateField_blur_raises:
  "parentElement classed_field = Some []
   \<and> (''blur'', ValidateField) \<in> set (listeners classed_field)
   \<and> snd (validateField_matching True classed_field) = Inl TypeError
   \<and> parentElement (fst (validateField_matching True classed_field)) = None"
  by (simp add: validateField_matching_def clearFieldError_matching_def fail_with_def
      showFieldError_def classed_field_def Let_def trim_def hasAttribute_def
      classList_remove_def removeAttribute_def classList_add_def setAttribute_def
      classList_contains_def FORM_ERROR_def)

end
